theory Spec2Isabelle
  imports Complex_Main "HOL-Library.Sublist"
begin

section \<open>The cached credential (\<^verbatim>\<open>cache.py\<close>)\<close>

text \<open>
  \<^verbatim>\<open>CFClearanceCache\<close> is a dataclass of seven fields. Timestamps (\<^verbatim>\<open>expires_at\<close> and the
  readings of \<^verbatim>\<open>time.time()\<close>) are seconds since the epoch; they are modelled as real
  numbers, so that the integer seconds of the remote service and the fractional readings of
  the clock live in one ordered type. Rounding of floating-point subtraction is not
  modelled. Strings are lists of characters, one character for each code point that
  Python counts.
\<close>

record CFClearanceCache =
  cf_clearance :: string
  user_agent :: string
  browser :: string
  proxy :: "string option"
  expires_at :: real
  cookie_string :: "string option"
  cookies :: "(string \<times> string) list option"

text \<open>
  \<^verbatim>\<open>is_expired(self, buffer_seconds=300)\<close>: \<^verbatim>\<open>not self.expires_at\<close> holds for a zero
  timestamp. The clock reading \<^verbatim>\<open>time.time()\<close> is the last argument.
\<close>

definition is_expired :: "CFClearanceCache \<Rightarrow> real \<Rightarrow> real \<Rightarrow> bool" where
  "is_expired c buffer_seconds t =
     (if expires_at c = 0 then True
      else t \<ge> expires_at c - buffer_seconds)"

definition is_valid_for :: "CFClearanceCache \<Rightarrow> string \<Rightarrow> string option \<Rightarrow> real \<Rightarrow> bool" where
  "is_valid_for c b p t =
     (if is_expired c 300 t then False
      else if browser c \<noteq> b then False
      else if proxy c \<noteq> p then False
      else True)"


section \<open>The cache manager and the world it runs in\<close>

text \<open>
  \<^verbatim>\<open>CFClearanceCacheManager\<close> holds \<^verbatim>\<open>_cache\<close> and \<^verbatim>\<open>_refreshing\<close>. Its \<^verbatim>\<open>asyncio.Lock\<close> is
  held only over straight-line code (there is no \<^verbatim>\<open>await\<close> inside any
  \<^verbatim>\<open>async with self._lock\<close> block), so no task of the event loop ever finds it taken:
  a method of the manager runs to completion as soon as it is awaited, and the lock carries
  no state.
\<close>

record manager =
  cache :: "CFClearanceCache option"
  refreshing :: bool

text \<open>
  The requests sent to the remote service and what comes back. A \<^verbatim>\<open>payload\<close> is the JSON
  object of a 200 answer as the code reads it with \<^verbatim>\<open>data.get\<close>: \<open>None\<close> is an absent key,
  \<open>success\<close> is the truth value of \<^verbatim>\<open>data.get("success")\<close>. \<open>Unreadable\<close> is a body on which
  lines 116 to 137 of \<^verbatim>\<open>service.py\<close> raise (not JSON, not an object, a token that cannot
  be sliced).
\<close>

record request =
  url :: string
  x_api_key :: "string option"
  target_url :: string
  ctx_browser :: string
  ctx_proxy :: "string option"
  ctx_user_agent :: "string option"
  ctx_timeout :: "int option"
  client_timeout :: int

record payload =
  success :: bool
  p_cf_clearance :: "string option"
  p_user_agent :: "string option"
  p_browser :: "string option"
  p_expires_at :: "real option"
  p_cookie_string :: "string option"
  p_cookies :: "(string \<times> string) list option"

datatype body = Unreadable | Data payload

text \<open>
  The outcome of \<^verbatim>\<open>await client.post(...)\<close>: \<^verbatim>\<open>httpx.TimeoutException\<close>, any other
  \<^verbatim>\<open>Exception\<close>, an exception that is not an \<^verbatim>\<open>Exception\<close> (task cancellation), or a
  response with its status code and body.
\<close>

datatype http_outcome =
    RaisesTimeout
  | RaisesException
  | RaisesBaseException
  | Responds int body

datatype exn = BaseException | HTTPException int

text \<open>
  Every awaited operation is recorded in a trace, the way a test double counts calls.
\<close>

datatype event =
    Sleep nat
  | GetCached
  | SetCache CFClearanceCache
  | Invalidate
  | IsRefreshing
  | SetRefreshing bool
  | Post request

text \<open>
  A world is the manager, the clock, the number of suspensions so far and the trace.
  A call gives up control at two places only: \<^verbatim>\<open>asyncio.sleep\<close> and the HTTP request
  (opening the client, posting and closing it count as one suspension). There the other
  tasks and the clock move on: the environment maps the number of the suspension and the
  manager and clock before it to the manager and clock after it. It is arbitrary: other
  tasks may store, invalidate and flip the flag. A task that is cancelled during its
  sleep does not return; such runs are left out.
\<close>

record world =
  mgr :: manager
  now :: real
  awaits :: nat
  trace :: "event list"

type_synonym environment = "nat \<Rightarrow> manager \<times> real \<Rightarrow> manager \<times> real"

type_synonym remote = "request \<Rightarrow> http_outcome"

definition record_event :: "event \<Rightarrow> world \<Rightarrow> world" where
  "record_event e w = w\<lparr>trace := trace w @ [e]\<rparr>"

definition suspend :: "environment \<Rightarrow> world \<Rightarrow> world" where
  "suspend env w =
     (let (m, t) = env (awaits w) (mgr w, now w)
      in w\<lparr>mgr := m, now := t, awaits := Suc (awaits w)\<rparr>)"

definition asyncio_sleep :: "environment \<Rightarrow> nat \<Rightarrow> world \<Rightarrow> world" where
  "asyncio_sleep env n w = suspend env (record_event (Sleep n) w)"

text \<open>
  \<^verbatim>\<open>get_cached\<close>: what the method computes under the lock from the manager and the clock,
  and the method as a step of the world.
\<close>

definition cached_entry ::
  "manager \<Rightarrow> string \<Rightarrow> string option \<Rightarrow> real \<Rightarrow> CFClearanceCache option" where
  "cached_entry m b p t =
     (case cache m of
        None \<Rightarrow> None
      | Some c \<Rightarrow> if is_valid_for c b p t then Some c else None)"

definition get_cached :: "string \<Rightarrow> string option \<Rightarrow> world \<Rightarrow> CFClearanceCache option \<times> world" where
  "get_cached b p w = (cached_entry (mgr w) b p (now w), record_event GetCached w)"

definition set_cache :: "CFClearanceCache \<Rightarrow> world \<Rightarrow> world" where
  "set_cache c w = record_event (SetCache c) (w\<lparr>mgr := (mgr w)\<lparr>cache := Some c\<rparr>\<rparr>)"

definition invalidate :: "world \<Rightarrow> world" where
  "invalidate w = record_event Invalidate (w\<lparr>mgr := (mgr w)\<lparr>cache := None\<rparr>\<rparr>)"

definition is_refreshing :: "world \<Rightarrow> bool \<times> world" where
  "is_refreshing w = (refreshing (mgr w), record_event IsRefreshing w)"

definition set_refreshing :: "bool \<Rightarrow> world \<Rightarrow> world" where
  "set_refreshing v w = record_event (SetRefreshing v) (w\<lparr>mgr := (mgr w)\<lparr>refreshing := v\<rparr>\<rparr>)"


section \<open>The service (\<^verbatim>\<open>service.py\<close>)\<close>

text \<open>
  Modelled from the spec: the configuration store (\<^verbatim>\<open>app.core.config.get_config\<close>) is not
  among the sources. It is a read-only collaborator; \<^verbatim>\<open>get_config(key, default)\<close> returns
  the stored value, or the default where the key has none. The record holds the stored
  values of the seven keys the service reads; the accessors below are those of
  \<^verbatim>\<open>service.py\<close>, lines 25 to 44, with their defaults.
\<close>

record config =
  cf_service_url :: "string option"
  cf_api_key :: "string option"
  cf_target_url :: "string option"
  cf_timeout :: "int option"
  proxy_base_proxy_url :: "string option"
  proxy_browser :: "string option"
  proxy_user_agent :: "string option"

definition get_service_url :: "config \<Rightarrow> string option" where
  "get_service_url cfg = cf_service_url cfg"

definition get_api_key :: "config \<Rightarrow> string option" where
  "get_api_key cfg = cf_api_key cfg"

definition get_target_url :: "config \<Rightarrow> string" where
  "get_target_url cfg = (case cf_target_url cfg of None \<Rightarrow> ''https://grok.com'' | Some u \<Rightarrow> u)"

definition get_timeout :: "config \<Rightarrow> int" where
  "get_timeout cfg = (case cf_timeout cfg of None \<Rightarrow> 120 | Some t \<Rightarrow> t)"

definition get_proxy :: "config \<Rightarrow> string option" where
  "get_proxy cfg = proxy_base_proxy_url cfg"

definition get_browser :: "config \<Rightarrow> string" where
  "get_browser cfg = (case proxy_browser cfg of None \<Rightarrow> ''chrome136'' | Some b \<Rightarrow> b)"

definition get_user_agent :: "config \<Rightarrow> string option" where
  "get_user_agent cfg = proxy_user_agent cfg"

text \<open>Python's truth value of an optional string: \<^verbatim>\<open>None\<close> and \<^verbatim>\<open>""\<close> are false.\<close>

definition truthy :: "string option \<Rightarrow> bool" where
  "truthy s = (case s of None \<Rightarrow> False | Some x \<Rightarrow> x \<noteq> [])"

definition is_enabled :: "config \<Rightarrow> bool" where
  "is_enabled cfg = truthy (get_service_url cfg)"

text \<open>\<^verbatim>\<open>browser or self._get_browser()\<close> and \<^verbatim>\<open>proxy if proxy is not None else self._get_proxy()\<close>.\<close>

definition browser_or :: "string option \<Rightarrow> config \<Rightarrow> string" where
  "browser_or b cfg =
     (case b of None \<Rightarrow> get_browser cfg | Some x \<Rightarrow> if x \<noteq> [] then x else get_browser cfg)"

definition proxy_or :: "string option \<Rightarrow> config \<Rightarrow> string option" where
  "proxy_or p cfg = (case p of Some x \<Rightarrow> Some x | None \<Rightarrow> get_proxy cfg)"

definition rstrip_slash :: "string \<Rightarrow> string" where
  "rstrip_slash s = rev (dropWhile (\<lambda>c. c = CHR ''/'') (rev s))"

text \<open>The constructor call of lines 123 to 131.\<close>

definition cache_of_payload :: "payload \<Rightarrow> string \<Rightarrow> string option \<Rightarrow> CFClearanceCache" where
  "cache_of_payload d b p =
     \<lparr>cf_clearance = (case p_cf_clearance d of None \<Rightarrow> [] | Some v \<Rightarrow> v),
      user_agent = (case p_user_agent d of None \<Rightarrow> [] | Some v \<Rightarrow> v),
      browser = (case p_browser d of None \<Rightarrow> b | Some v \<Rightarrow> v),
      proxy = p,
      expires_at = (case p_expires_at d of None \<Rightarrow> 0 | Some v \<Rightarrow> v),
      cookie_string = p_cookie_string d,
      cookies = p_cookies d\<rparr>"

text \<open>
  The request of lines 64 to 94, for a service URL that is set and the browser and proxy
  already resolved: the headers, the JSON body and the client's timeout.
\<close>

definition credentials_request ::
  "config \<Rightarrow> string \<Rightarrow> string \<Rightarrow> string option \<Rightarrow> string option \<Rightarrow> int option \<Rightarrow> request" where
  "credentials_request cfg service_url b p user_agent0 timeout0 =
     (let api_key = get_api_key cfg;
          ua = (if truthy user_agent0 then user_agent0 else get_user_agent cfg);
          tmo = (case timeout0 of
                   None \<Rightarrow> get_timeout cfg
                 | Some t \<Rightarrow> if t \<noteq> 0 then t else get_timeout cfg)
      in \<lparr>url = rstrip_slash service_url @ ''/api/v1/credentials'',
          x_api_key = (if truthy api_key then api_key else None),
          target_url = get_target_url cfg,
          ctx_browser = b,
          ctx_proxy = (if truthy p then p else None),
          ctx_user_agent = (if truthy ua then ua else None),
          ctx_timeout = (if tmo \<noteq> 0 then Some tmo else None),
          client_timeout = tmo + 10\<rparr>)"

text \<open>
  \<^verbatim>\<open>fetch_from_service\<close>. The two \<^verbatim>\<open>except\<close> clauses turn a timeout and every other
  \<^verbatim>\<open>Exception\<close> into \<^verbatim>\<open>None\<close>; anything else raised by the call leaves the function.
  Log lines are not modelled.
\<close>

definition fetch_from_service ::
  "config \<Rightarrow> environment \<Rightarrow> remote \<Rightarrow> string option \<Rightarrow> string option \<Rightarrow> string option \<Rightarrow>
   int option \<Rightarrow> world \<Rightarrow> (exn + CFClearanceCache option) \<times> world" where
  "fetch_from_service cfg env rmt browser0 proxy0 user_agent0 timeout0 w =
     (case get_service_url cfg of
        None \<Rightarrow> (Inr None, w)
      | Some service_url \<Rightarrow>
          (if service_url = [] then (Inr None, w)
           else
             let b = browser_or browser0 cfg;
                 p = proxy_or proxy0 cfg;
                 req = credentials_request cfg service_url b p user_agent0 timeout0;
                 w1 = suspend env (record_event (Post req) w)
             in case rmt req of
                  RaisesTimeout \<Rightarrow> (Inr None, w1)
                | RaisesException \<Rightarrow> (Inr None, w1)
                | RaisesBaseException \<Rightarrow> (Inl BaseException, w1)
                | Responds status_code bd \<Rightarrow>
                    if status_code \<noteq> 200 then (Inr None, w1)
                    else (case bd of
                            Unreadable \<Rightarrow> (Inr None, w1)
                          | Data d \<Rightarrow>
                              if \<not> success d then (Inr None, w1)
                              else (Inr (Some (cache_of_payload d b p)), w1))))"

text \<open>
  The wait loop of \<^verbatim>\<open>get_clearance\<close>, lines 165 to 172: \<open>n\<close> is the number of iterations
  left. A \<^verbatim>\<open>break\<close> and the end of the range both reach \<^verbatim>\<open>return None\<close>.
\<close>

fun get_clearance_wait ::
  "environment \<Rightarrow> string \<Rightarrow> string option \<Rightarrow> nat \<Rightarrow> world \<Rightarrow> string option \<times> world" where
  "get_clearance_wait env b p 0 w = (None, w)"
| "get_clearance_wait env b p (Suc n) w =
     (let w1 = asyncio_sleep env 1 w;
          (cached, w2) = get_cached b p w1
      in case cached of
           Some c \<Rightarrow> (Some (cf_clearance c), w2)
         | None \<Rightarrow>
             (let (r, w3) = is_refreshing w2
              in if \<not> r then (None, w3)
                 else get_clearance_wait env b p n w3))"

definition get_clearance ::
  "config \<Rightarrow> environment \<Rightarrow> remote \<Rightarrow> string option \<Rightarrow> string option \<Rightarrow> bool \<Rightarrow> world \<Rightarrow>
   (exn + string option) \<times> world" where
  "get_clearance cfg env rmt browser0 proxy0 force_refresh w =
     (let b = browser_or browser0 cfg;
          p = proxy_or proxy0 cfg;
          (hit, w1) = (if \<not> force_refresh then get_cached b p w else (None, w))
      in case hit of
           Some c \<Rightarrow> (Inr (Some (cf_clearance c)), w1)
         | None \<Rightarrow>
             (let (r, w2) = is_refreshing w1
              in if r then
                   (let (res, w3) = get_clearance_wait env b p 30 w2 in (Inr res, w3))
                 else
                   (let w3 = set_refreshing True w2;
                        (fetched, w4) = fetch_from_service cfg env rmt (Some b) p None None w3
                    in case fetched of
                         Inl e \<Rightarrow> (Inl e, set_refreshing False w4)
                       | Inr None \<Rightarrow> (Inr None, set_refreshing False w4)
                       | Inr (Some c) \<Rightarrow>
                           (let w5 = set_cache c w4
                            in (Inr (Some (cf_clearance c)), set_refreshing False w5)))))"

text \<open>The wait loop of \<^verbatim>\<open>get_cache\<close>, lines 201 to 208, and \<^verbatim>\<open>get_cache\<close> itself.\<close>

fun get_cache_wait ::
  "environment \<Rightarrow> string \<Rightarrow> string option \<Rightarrow> nat \<Rightarrow> world \<Rightarrow> CFClearanceCache option \<times> world" where
  "get_cache_wait env b p 0 w = (None, w)"
| "get_cache_wait env b p (Suc n) w =
     (let w1 = asyncio_sleep env 1 w;
          (cached, w2) = get_cached b p w1
      in case cached of
           Some c \<Rightarrow> (Some c, w2)
         | None \<Rightarrow>
             (let (r, w3) = is_refreshing w2
              in if \<not> r then (None, w3)
                 else get_cache_wait env b p n w3))"

definition get_cache ::
  "config \<Rightarrow> environment \<Rightarrow> remote \<Rightarrow> string option \<Rightarrow> string option \<Rightarrow> bool \<Rightarrow> world \<Rightarrow>
   (exn + CFClearanceCache option) \<times> world" where
  "get_cache cfg env rmt browser0 proxy0 force_refresh w =
     (let b = browser_or browser0 cfg;
          p = proxy_or proxy0 cfg;
          (hit, w1) = (if \<not> force_refresh then get_cached b p w else (None, w))
      in case hit of
           Some c \<Rightarrow> (Inr (Some c), w1)
         | None \<Rightarrow>
             (let (r, w2) = is_refreshing w1
              in if r then
                   (let (res, w3) = get_cache_wait env b p 30 w2 in (Inr res, w3))
                 else
                   (let w3 = set_refreshing True w2;
                        (fetched, w4) = fetch_from_service cfg env rmt (Some b) p None None w3
                    in case fetched of
                         Inl e \<Rightarrow> (Inl e, set_refreshing False w4)
                       | Inr None \<Rightarrow> (Inr None, set_refreshing False w4)
                       | Inr (Some c) \<Rightarrow>
                           (let w5 = set_cache c w4
                            in (Inr (Some c), set_refreshing False w5)))))"

definition invalidate_cache :: "world \<Rightarrow> world" where
  "invalidate_cache w = invalidate w"


section \<open>The admin endpoints (\<^verbatim>\<open>admin_api/cf_clearance.py\<close>)\<close>

record CFStatusResponse =
  enabled :: bool
  service_url :: "string option"
  has_cache :: bool
  cached_clearance :: "string option"

definition get_cf_status ::
  "config \<Rightarrow> environment \<Rightarrow> remote \<Rightarrow> world \<Rightarrow> (exn + CFStatusResponse) \<times> world" where
  "get_cf_status cfg env rmt w =
     (let su = get_service_url cfg;
          shown = (case su of
                     None \<Rightarrow> None
                   | Some u \<Rightarrow> if u \<noteq> [] \<and> length u > 50 then Some (take 50 u @ ''...'') else Some u)
      in if is_enabled cfg then
           (case get_cache cfg env rmt None None False w of
              (Inl e, w1) \<Rightarrow> (Inl e, w1)
            | (Inr None, w1) \<Rightarrow>
                (Inr \<lparr>enabled = is_enabled cfg, service_url = shown,
                      has_cache = False, cached_clearance = None\<rparr>, w1)
            | (Inr (Some c), w1) \<Rightarrow>
                (Inr \<lparr>enabled = is_enabled cfg, service_url = shown,
                      has_cache = True,
                      cached_clearance =
                        (if cf_clearance c \<noteq> [] then Some (take 30 (cf_clearance c) @ ''...'')
                         else None)\<rparr>, w1))
         else
           (Inr \<lparr>enabled = is_enabled cfg, service_url = shown,
                 has_cache = False, cached_clearance = None\<rparr>, w))"

text \<open>The two dictionaries that \<^verbatim>\<open>refresh_cf\<close> returns.\<close>

record refresh_result =
  r_success :: bool
  r_cf_clearance :: "string option"
  r_message :: string

definition refresh_succeeded :: "string \<Rightarrow> refresh_result" where
  "refresh_succeeded tok =
     \<lparr>r_success = True,
      r_cf_clearance = Some (take 30 tok @ ''...''),
      r_message = ''CF Clearance refreshed successfully''\<rparr>"

definition refresh_failed :: refresh_result where
  "refresh_failed =
     \<lparr>r_success = False,
      r_cf_clearance = None,
      r_message = ''Failed to refresh CF Clearance, check logs for details''\<rparr>"

definition refresh_cf ::
  "config \<Rightarrow> environment \<Rightarrow> remote \<Rightarrow> bool \<Rightarrow> world \<Rightarrow> (exn + refresh_result) \<times> world" where
  "refresh_cf cfg env rmt force w =
     (if \<not> is_enabled cfg then (Inl (HTTPException 400), w)
      else
        let w1 = (if force then invalidate_cache w else w)
        in case get_clearance cfg env rmt None None force w1 of
             (Inl e, w2) \<Rightarrow> (Inl e, w2)
           | (Inr None, w2) \<Rightarrow> (Inr refresh_failed, w2)
           | (Inr (Some tok), w2) \<Rightarrow>
               if tok \<noteq> [] then (Inr (refresh_succeeded tok), w2)
               else (Inr refresh_failed, w2))"

definition invalidate_cf :: "world \<Rightarrow> world" where
  "invalidate_cf w = invalidate_cache w"


section \<open>Describing the environment of a waiting call\<close>

text \<open>
  A call that waits writes nothing to the manager, so what it finds each time it resumes
  is decided by the environment alone. \<open>wakeup env k s i\<close> is the manager and clock found
  after \<open>i + 1\<close> consecutive suspensions, the first of them being suspension number \<open>k\<close>
  and starting from \<open>s\<close>. \<open>still_refreshing\<close> says that such a state shows a refresh in
  flight and no entry that is valid for the browser and proxy. \<open>polls n\<close> is the trace of
  \<open>n\<close> iterations of the wait loop that run to their end.
\<close>

fun wakeup :: "environment \<Rightarrow> nat \<Rightarrow> manager \<times> real \<Rightarrow> nat \<Rightarrow> manager \<times> real" where
  "wakeup env k s 0 = env k s"
| "wakeup env k s (Suc i) = env (k + Suc i) (wakeup env k s i)"

definition still_refreshing :: "string \<Rightarrow> string option \<Rightarrow> manager \<times> real \<Rightarrow> bool" where
  "still_refreshing b p s = (refreshing (fst s) \<and> cached_entry (fst s) b p (snd s) = None)"

abbreviation polls :: "nat \<Rightarrow> event list" where
  "polls n \<equiv> concat (replicate n [Sleep 1, GetCached, IsRefreshing])"

section \<open>Sample inputs\<close>

text \<open>
  A service at \<^verbatim>\<open>http://cf:8080/\<close> with every other key left to its default; an entry for
  \<^verbatim>\<open>chrome136\<close> without proxy that expires at 5000; worlds at time 1000.
\<close>

definition cfg_on :: config where
  "cfg_on =
     \<lparr>cf_service_url = Some ''http://cf:8080/'', cf_api_key = None, cf_target_url = None,
      cf_timeout = None, proxy_base_proxy_url = None, proxy_browser = None,
      proxy_user_agent = None\<rparr>"

definition entry_a :: CFClearanceCache where
  "entry_a =
     \<lparr>cf_clearance = ''abcd1234'', user_agent = ''Mozilla/5.0'', browser = ''chrome136'',
      proxy = None, expires_at = 5000, cookie_string = None, cookies = None\<rparr>"


definition entry_long :: CFClearanceCache where
  "entry_long = entry_a\<lparr>cf_clearance := ''0123456789abcdefghijklmnopqrstuvwxyz''\<rparr>"



definition world_empty :: world where
  "world_empty =
     \<lparr>mgr = \<lparr>cache = None, refreshing = False\<rparr>, now = 1000, awaits = 0, trace = []\<rparr>"

definition world_seeded :: world where
  "world_seeded =
     \<lparr>mgr = \<lparr>cache = Some entry_a, refreshing = False\<rparr>, now = 1000, awaits = 0, trace = []\<rparr>"

definition world_long :: world where
  "world_long =
     \<lparr>mgr = \<lparr>cache = Some entry_long, refreshing = False\<rparr>, now = 1000, awaits = 0,
      trace = []\<rparr>"

definition world_waiting :: world where
  "world_waiting =
     \<lparr>mgr = \<lparr>cache = None, refreshing = True\<rparr>, now = 1000, awaits = 0, trace = []\<rparr>"

text \<open>
  Environments: nothing else runs; the refresh in flight ends without an entry during the
  sleep; it ends after storing \<open>entry_a\<close>. Remote services: an error page, a cancelled
  call, a good answer.
\<close>

definition env_idle :: environment where
  "env_idle k s = s"

definition env_abandoned :: environment where
  "env_abandoned k s = ((fst s)\<lparr>refreshing := False\<rparr>, snd s + 1)"

definition env_published :: environment where
  "env_published k s = (\<lparr>cache = Some entry_a, refreshing = False\<rparr>, snd s + 1)"

definition rmt_500 :: remote where
  "rmt_500 r = Responds 500 Unreadable"

definition rmt_cancelled :: remote where
  "rmt_cancelled r = RaisesBaseException"


section \<open>Validity of an entry\<close>




section \<open>The paths through \<^verbatim>\<open>get_cache\<close> and \<^verbatim>\<open>get_clearance\<close>\<close>

lemmas manager_ops =
  get_cached_def cached_entry_def set_cache_def invalidate_def is_refreshing_def
  set_refreshing_def record_event_def

lemma cached_entry_Some: "cached_entry m b p t = Some c \<Longrightarrow> cache m = Some c"
  by (auto simp: cached_entry_def split: option.splits if_splits)



lemma browser_or_None [simp]: "browser_or None cfg = get_browser cfg"
  by (simp add: browser_or_def)

lemma proxy_or_None [simp]: "proxy_or None cfg = get_proxy cfg"
  by (simp add: proxy_or_def)

lemma wait_loops_agree:
  "get_clearance_wait env b p n w =
     (map_option cf_clearance (fst (get_cache_wait env b p n w)),
      snd (get_cache_wait env b p n w))"
proof (induction n arbitrary: w)
  case 0
  show ?case by simp
next
  case (Suc n)
  show ?case
    by (simp add: Let_def split_def Suc.IH split: option.splits)
qed

lemma get_clearance_as_get_cache:
  "get_clearance cfg env rmt browser0 proxy0 force_refresh w =
     (map_sum id (map_option cf_clearance)
        (fst (get_cache cfg env rmt browser0 proxy0 force_refresh w)),
      snd (get_cache cfg env rmt browser0 proxy0 force_refresh w))"
  by (auto simp: get_clearance_def get_cache_def Let_def split_def wait_loops_agree
      split: option.splits sum.splits)

text \<open>The three ways through \<^verbatim>\<open>get_cache\<close>: a hit, the wait, the fetch.\<close>

lemma get_cache_hit:
  assumes "cached_entry (mgr w) (browser_or browser0 cfg) (proxy_or proxy0 cfg) (now w) = Some c"
  shows "get_cache cfg env rmt browser0 proxy0 False w =
           (Inr (Some c), w\<lparr>trace := trace w @ [GetCached]\<rparr>)"
  using assms by (simp add: get_cache_def get_cached_def record_event_def Let_def)

lemma get_cache_enters_wait:
  assumes "refreshing (mgr w)"
    and "force_refresh \<or>
         cached_entry (mgr w) (browser_or browser0 cfg) (proxy_or proxy0 cfg) (now w) = None"
  shows "get_cache cfg env rmt browser0 proxy0 force_refresh w =
           (Inr (fst (get_cache_wait env (browser_or browser0 cfg) (proxy_or proxy0 cfg) 30
                   (w\<lparr>trace := trace w @ (if force_refresh then [] else [GetCached])
                                   @ [IsRefreshing]\<rparr>))),
            snd (get_cache_wait env (browser_or browser0 cfg) (proxy_or proxy0 cfg) 30
                   (w\<lparr>trace := trace w @ (if force_refresh then [] else [GetCached])
                                   @ [IsRefreshing]\<rparr>)))"
  using assms
  by (auto simp: get_cache_def get_cached_def is_refreshing_def record_event_def Let_def
      split_def simp del: get_cache_wait.simps)

lemma get_cache_fetches:
  assumes "\<not> refreshing (mgr w)"
    and "force_refresh \<or>
         cached_entry (mgr w) (browser_or browser0 cfg) (proxy_or proxy0 cfg) (now w) = None"
  shows "get_cache cfg env rmt browser0 proxy0 force_refresh w =
           (case fetch_from_service cfg env rmt (Some (browser_or browser0 cfg))
                   (proxy_or proxy0 cfg) None None
                   (w\<lparr>mgr := (mgr w)\<lparr>refreshing := True\<rparr>,
                      trace := trace w @ (if force_refresh then [] else [GetCached])
                                 @ [IsRefreshing, SetRefreshing True]\<rparr>) of
              (Inl e, w4) \<Rightarrow> (Inl e, set_refreshing False w4)
            | (Inr None, w4) \<Rightarrow> (Inr None, set_refreshing False w4)
            | (Inr (Some c), w4) \<Rightarrow> (Inr (Some c), set_refreshing False (set_cache c w4)))"
  using assms
  by (auto simp: get_cache_def get_cached_def is_refreshing_def set_refreshing_def
      record_event_def Let_def split_def
      simp del: get_cache_wait.simps split: sum.splits option.splits)





section \<open>The two entry points agree\<close>

text \<open>
  C9. On the same configuration, environment, remote service, arguments and world,
  \<^verbatim>\<open>get_clearance\<close> returns the \<^verbatim>\<open>cf_clearance\<close> field of what \<^verbatim>\<open>get_cache\<close> returns
  (and raises where it raises), leaves the same world behind, and returns nothing exactly
  when \<^verbatim>\<open>get_cache\<close> returns nothing.
\<close>

theorem get_clearance_projects_get_cache:
  "get_clearance cfg env rmt browser0 proxy0 force_refresh w =
     (map_sum id (map_option cf_clearance)
        (fst (get_cache cfg env rmt browser0 proxy0 force_refresh w)),
      snd (get_cache cfg env rmt browser0 proxy0 force_refresh w))
   \<and> (fst (get_clearance cfg env rmt browser0 proxy0 force_refresh w) = Inr None \<longleftrightarrow>
        fst (get_cache cfg env rmt browser0 proxy0 force_refresh w) = Inr None)"
proof -
  let ?r = "fst (get_cache cfg env rmt browser0 proxy0 force_refresh w)"
  have "map_sum id (map_option cf_clearance) ?r = Inr None \<longleftrightarrow> ?r = Inr None"
    by (cases ?r) auto
  then show ?thesis
    by (simp add: get_clearance_as_get_cache)
qed

section \<open>The cache hit\<close>



section \<open>The fetcher path\<close>

text \<open>
  C4. A call that takes the fetcher path (nothing valid to return, or a forced refresh,
  and no refresh in flight) leaves \<^verbatim>\<open>_refreshing\<close> false when it is over, whatever the
  remote call did, an exception that \<^verbatim>\<open>fetch_from_service\<close> does not catch included:
  the last thing the call does is \<^verbatim>\<open>set_refreshing(False)\<close>.
\<close>

theorem fetcher_path_resets_refreshing:
  assumes "\<not> refreshing (mgr w)"
    and "force_refresh \<or>
         cached_entry (mgr w) (browser_or browser0 cfg) (proxy_or proxy0 cfg) (now w) = None"
  shows "\<not> refreshing (mgr (snd (get_clearance cfg env rmt browser0 proxy0 force_refresh w)))
       \<and> last (trace (snd (get_clearance cfg env rmt browser0 proxy0 force_refresh w))) =
           SetRefreshing False
       \<and> \<not> refreshing (mgr (snd (get_cache cfg env rmt browser0 proxy0 force_refresh w)))
       \<and> last (trace (snd (get_cache cfg env rmt browser0 proxy0 force_refresh w))) =
           SetRefreshing False"
  unfolding get_clearance_as_get_cache get_cache_fetches [OF assms]
  by (auto simp: set_refreshing_def set_cache_def record_event_def
      split: prod.splits sum.splits option.splits)

theorem fetcher_path_resets_refreshing_witness:
  "get_clearance cfg_on env_idle rmt_cancelled None None False world_empty =
     (Inl BaseException,
      \<lparr>mgr = \<lparr>cache = None, refreshing = False\<rparr>, now = 1000, awaits = 1,
       trace = [GetCached, IsRefreshing, SetRefreshing True,
                Post (credentials_request cfg_on ''http://cf:8080/'' ''chrome136'' None None None),
                SetRefreshing False]\<rparr>)
   \<and> \<not> refreshing (mgr (snd
         (get_clearance cfg_on env_idle rmt_cancelled None None False world_empty)))"
  using fetcher_path_resets_refreshing
    [of world_empty False None cfg_on None env_idle rmt_cancelled]
  by (simp add: get_clearance_def fetch_from_service_def manager_ops suspend_def Let_def
      world_empty_def cfg_on_def env_idle_def rmt_cancelled_def browser_or_def proxy_or_def
      get_browser_def get_proxy_def get_service_url_def)




section \<open>The status endpoint\<close>




section \<open>The waiter path\<close>

lemma wakeup_shift: "wakeup env k s (Suc i) = wakeup env (Suc k) (env k s) i"
  by (induction i) simp_all

lemma wakeup_idle: "wakeup env_idle k s i = s"
  by (induction i) (simp_all add: env_idle_def)

lemma still_refreshing_shift:
  assumes "\<forall>i<Suc n. still_refreshing b p (wakeup env k s i)"
  shows "still_refreshing b p (env k s)"
    and "\<forall>i<n. still_refreshing b p (wakeup env (Suc k) (env k s) i)"
proof -
  from assms have "still_refreshing b p (wakeup env k s 0)" by blast
  then show "still_refreshing b p (env k s)" by simp
  show "\<forall>i<n. still_refreshing b p (wakeup env (Suc k) (env k s) i)"
  proof (intro allI impI)
    fix i assume "i < n"
    then have "Suc i < Suc n" by simp
    with assms have "still_refreshing b p (wakeup env k s (Suc i))" by blast
    then show "still_refreshing b p (wakeup env (Suc k) (env k s) i)"
      by (simp only: wakeup_shift)
  qed
qed

text \<open>One iteration that finds the refresh still running and no entry.\<close>

lemma get_cache_wait_step:
  assumes "env (awaits w) (mgr w, now w) = (m, t)" and "still_refreshing b p (m, t)"
  shows "get_cache_wait env b p (Suc n) w =
           get_cache_wait env b p n
             (w\<lparr>mgr := m, now := t, awaits := Suc (awaits w),
                trace := trace w @ [Sleep 1, GetCached, IsRefreshing]\<rparr>)"
  using assms
  by (simp add: still_refreshing_def asyncio_sleep_def suspend_def get_cached_def
      is_refreshing_def record_event_def Let_def)

text \<open>All \<open>n\<close> iterations find it so.\<close>

lemma get_cache_wait_stuck:
  assumes "\<forall>i<n. still_refreshing b p (wakeup env (awaits w) (mgr w, now w) i)"
  shows "fst (get_cache_wait env b p n w) = None
       \<and> trace (snd (get_cache_wait env b p n w)) = trace w @ polls n
       \<and> awaits (snd (get_cache_wait env b p n w)) = awaits w + n"
  using assms
proof (induction n arbitrary: w)
  case 0
  show ?case by simp
next
  case (Suc n)
  obtain m t where e: "env (awaits w) (mgr w, now w) = (m, t)"
    by (cases "env (awaits w) (mgr w, now w)")
  let ?w3 = "w\<lparr>mgr := m, now := t, awaits := Suc (awaits w),
              trace := trace w @ [Sleep 1, GetCached, IsRefreshing]\<rparr>"
  note sh = still_refreshing_shift [OF Suc.prems]
  have step: "get_cache_wait env b p (Suc n) w = get_cache_wait env b p n ?w3"
    using get_cache_wait_step [of env w m t b p n] sh(1) e by simp
  have "\<forall>i<n. still_refreshing b p (wakeup env (awaits ?w3) (mgr ?w3, now ?w3) i)"
    using sh(2) e by simp
  from Suc.IH [OF this] show ?case
    unfolding step by simp
qed

text \<open>The iteration that ends the wait, after \<open>k\<close> that did not.\<close>

lemma get_cache_wait_resolves:
  assumes "k < n"
    and "\<forall>i<k. still_refreshing b p (wakeup env (awaits w) (mgr w, now w) i)"
    and "wakeup env (awaits w) (mgr w, now w) k = (m, t)"
  shows "(cached_entry m b p t = Some c \<longrightarrow>
            get_cache_wait env b p n w =
              (Some c, w\<lparr>mgr := m, now := t, awaits := awaits w + Suc k,
                         trace := trace w @ polls k @ [Sleep 1, GetCached]\<rparr>))
       \<and> (cached_entry m b p t = None \<and> \<not> refreshing m \<longrightarrow>
            get_cache_wait env b p n w =
              (None, w\<lparr>mgr := m, now := t, awaits := awaits w + Suc k,
                       trace := trace w @ polls k @ [Sleep 1, GetCached, IsRefreshing]\<rparr>))"
  using assms
proof (induction k arbitrary: n w)
  case 0
  then obtain n' where n: "n = Suc n'" by (cases n) auto
  from 0 have e: "env (awaits w) (mgr w, now w) = (m, t)" by simp
  show ?case
    using e
    by (simp add: n asyncio_sleep_def suspend_def get_cached_def
        is_refreshing_def record_event_def Let_def)
next
  case (Suc k)
  then obtain n' where n: "n = Suc n'" and kn: "k < n'" by (cases n) auto
  obtain m1 t1 where e: "env (awaits w) (mgr w, now w) = (m1, t1)"
    by (cases "env (awaits w) (mgr w, now w)")
  let ?w3 = "w\<lparr>mgr := m1, now := t1, awaits := Suc (awaits w),
              trace := trace w @ [Sleep 1, GetCached, IsRefreshing]\<rparr>"
  note sh = still_refreshing_shift [OF Suc.prems(2)]
  have step: "get_cache_wait env b p n w = get_cache_wait env b p n' ?w3"
    using get_cache_wait_step [of env w m1 t1 b p n'] sh(1) e by (simp add: n)
  have a: "\<forall>i<k. still_refreshing b p (wakeup env (awaits ?w3) (mgr ?w3, now ?w3) i)"
    using sh(2) e by simp
  have b: "wakeup env (awaits ?w3) (mgr ?w3, now ?w3) k = (m, t)"
    using Suc.prems(3) e by (simp only: wakeup_shift) simp
  from Suc.IH [OF kn a b] show ?case
    by (simp add: step)
qed

text \<open>
  C5. A call that finds a refresh in flight and nothing valid to return, and that finds
  the same at each of its thirty wake-ups, returns nothing after exactly thirty rounds of
  \<^verbatim>\<open>asyncio.sleep(1)\<close>, \<^verbatim>\<open>get_cached\<close>, \<^verbatim>\<open>is_refreshing\<close>. (The code has one failure value,
  \<^verbatim>\<open>None\<close>, for a wait that ran out and for a fetch that failed.)
\<close>

theorem waiter_gives_up_after_30_polls:
  assumes "refreshing (mgr w)"
    and "force_refresh \<or>
         cached_entry (mgr w) (browser_or browser0 cfg) (proxy_or proxy0 cfg) (now w) = None"
    and "\<forall>i<30. still_refreshing (browser_or browser0 cfg) (proxy_or proxy0 cfg)
                  (wakeup env (awaits w) (mgr w, now w) i)"
  shows "fst (get_clearance cfg env rmt browser0 proxy0 force_refresh w) = Inr None
       \<and> trace (snd (get_clearance cfg env rmt browser0 proxy0 force_refresh w)) =
           trace w @ (if force_refresh then [] else [GetCached]) @ [IsRefreshing]
             @ concat (replicate 30 [Sleep 1, GetCached, IsRefreshing])
       \<and> awaits (snd (get_clearance cfg env rmt browser0 proxy0 force_refresh w)) =
           awaits w + 30"
proof -
  let ?w = "w\<lparr>trace := trace w @ (if force_refresh then [] else [GetCached])
                           @ [IsRefreshing]\<rparr>"
  have "\<forall>i<30. still_refreshing (browser_or browser0 cfg) (proxy_or proxy0 cfg)
                  (wakeup env (awaits ?w) (mgr ?w, now ?w) i)"
    using assms(3) by simp
  from get_cache_wait_stuck [OF this] show ?thesis
    unfolding get_clearance_as_get_cache get_cache_enters_wait [OF assms(1,2)]
    by simp
qed

theorem waiter_gives_up_after_30_polls_witness:
  "fst (get_clearance cfg_on env_idle rmt_500 None None False world_waiting) = Inr None
   \<and> trace (snd (get_clearance cfg_on env_idle rmt_500 None None False world_waiting)) =
       [GetCached, IsRefreshing] @ concat (replicate 30 [Sleep 1, GetCached, IsRefreshing])
   \<and> awaits (snd (get_clearance cfg_on env_idle rmt_500 None None False world_waiting)) = 30"
  using waiter_gives_up_after_30_polls
    [of world_waiting False None cfg_on None env_idle rmt_500]
  by (simp add: wakeup_idle still_refreshing_def cached_entry_def world_waiting_def)


text \<open>
  C6, as the code has it. At each wake-up the waiter first calls \<^verbatim>\<open>get_cached\<close> and
  returns the entry on a hit, whether or not a refresh is still in flight; only on a miss
  does it read the flag, and when the flag is false it leaves the loop and returns nothing
  at once: \<^verbatim>\<open>is_refreshing\<close> is the last operation of the call, no \<^verbatim>\<open>get_cached\<close> follows
  it. Here the wake-up is number \<open>k\<close> of the thirty, after \<open>k\<close> that found the refresh
  still running.
\<close>

theorem waiter_stops_when_refresh_ends:
  assumes "refreshing (mgr w)"
    and "force_refresh \<or> cached_entry (mgr w) b p (now w) = None"
    and "b = browser_or browser0 cfg" and "p = proxy_or proxy0 cfg"
    and "k < 30"
    and "\<forall>i<k. still_refreshing b p (wakeup env (awaits w) (mgr w, now w) i)"
    and "wakeup env (awaits w) (mgr w, now w) k = (m, t)"
    and "pre = (if force_refresh then [] else [GetCached]) @ [IsRefreshing]
                 @ concat (replicate k [Sleep 1, GetCached, IsRefreshing])"
  shows "(cached_entry m b p t = Some c \<longrightarrow>
            get_cache cfg env rmt browser0 proxy0 force_refresh w =
              (Inr (Some c),
               w\<lparr>mgr := m, now := t, awaits := awaits w + Suc k,
                 trace := trace w @ pre @ [Sleep 1, GetCached]\<rparr>)
          \<and> get_clearance cfg env rmt browser0 proxy0 force_refresh w =
              (Inr (Some (cf_clearance c)),
               w\<lparr>mgr := m, now := t, awaits := awaits w + Suc k,
                 trace := trace w @ pre @ [Sleep 1, GetCached]\<rparr>))
       \<and> (cached_entry m b p t = None \<and> \<not> refreshing m \<longrightarrow>
            get_cache cfg env rmt browser0 proxy0 force_refresh w =
              (Inr None,
               w\<lparr>mgr := m, now := t, awaits := awaits w + Suc k,
                 trace := trace w @ pre @ [Sleep 1, GetCached, IsRefreshing]\<rparr>)
          \<and> get_clearance cfg env rmt browser0 proxy0 force_refresh w =
              (Inr None,
               w\<lparr>mgr := m, now := t, awaits := awaits w + Suc k,
                 trace := trace w @ pre @ [Sleep 1, GetCached, IsRefreshing]\<rparr>))"
proof -
  let ?w = "w\<lparr>trace := trace w @ (if force_refresh then [] else [GetCached])
                           @ [IsRefreshing]\<rparr>"
  have a: "\<forall>i<k. still_refreshing b p (wakeup env (awaits ?w) (mgr ?w, now ?w) i)"
    using assms(6) by simp
  have b: "wakeup env (awaits ?w) (mgr ?w, now ?w) k = (m, t)"
    using assms(7) by simp
  have enter: "get_cache cfg env rmt browser0 proxy0 force_refresh w =
                 (Inr (fst (get_cache_wait env b p 30 ?w)), snd (get_cache_wait env b p 30 ?w))"
    using get_cache_enters_wait [of w force_refresh browser0 cfg proxy0 env rmt] assms(1-4)
    by simp
  from get_cache_wait_resolves [OF assms(5) a b, of c] show ?thesis
    unfolding get_clearance_as_get_cache enter
    by (auto simp: assms(8))
qed

theorem waiter_stops_when_refresh_ends_witness:
  "get_clearance cfg_on env_published rmt_500 None None False world_waiting =
     (Inr (Some ''abcd1234''),
      \<lparr>mgr = \<lparr>cache = Some entry_a, refreshing = False\<rparr>, now = 1001, awaits = 1,
       trace = [GetCached, IsRefreshing, Sleep 1, GetCached]\<rparr>)
   \<and> get_clearance cfg_on env_abandoned rmt_500 None None False world_waiting =
     (Inr None,
      \<lparr>mgr = \<lparr>cache = None, refreshing = False\<rparr>, now = 1001, awaits = 1,
       trace = [GetCached, IsRefreshing, Sleep 1, GetCached, IsRefreshing]\<rparr>)"
proof -
  have r: "refreshing (mgr world_waiting)"
    and miss: "False \<or> cached_entry (mgr world_waiting) ''chrome136'' None (now world_waiting) = None"
    and b: "''chrome136'' = browser_or None cfg_on" and p: "None = proxy_or None cfg_on"
    by (simp_all add: world_waiting_def cached_entry_def cfg_on_def get_browser_def
        get_proxy_def)
  have k: "(0::nat) < 30" by simp
  have none: "\<forall>i<0. still_refreshing ''chrome136'' None
                (wakeup env (awaits world_waiting) (mgr world_waiting, now world_waiting) i)"
    for env
    by simp
  have pre: "[GetCached, IsRefreshing] =
               (if False then [] else [GetCached]) @ [IsRefreshing]
                 @ concat (replicate 0 [Sleep 1, GetCached, IsRefreshing])"
    by simp
  have w1: "wakeup env_published (awaits world_waiting) (mgr world_waiting, now world_waiting) 0 =
              (\<lparr>cache = Some entry_a, refreshing = False\<rparr>, 1001)"
    by (simp add: env_published_def world_waiting_def)
  have w2: "wakeup env_abandoned (awaits world_waiting) (mgr world_waiting, now world_waiting) 0 =
              (\<lparr>cache = None, refreshing = False\<rparr>, 1001)"
    by (simp add: env_abandoned_def world_waiting_def)
  have hit: "cached_entry \<lparr>cache = Some entry_a, refreshing = False\<rparr> ''chrome136'' None 1001 =
               Some entry_a"
    by (simp add: cached_entry_def entry_a_def is_valid_for_def is_expired_def)
  have gone: "cached_entry \<lparr>cache = None, refreshing = False\<rparr> ''chrome136'' None 1001 = None
              \<and> \<not> refreshing \<lparr>cache = None, refreshing = False\<rparr>"
    by (simp add: cached_entry_def)
  have tok: "cf_clearance entry_a = ''abcd1234''"
    by (simp add: entry_a_def)
  have upd1: "world_waiting\<lparr>mgr := \<lparr>cache = Some entry_a, refreshing = False\<rparr>, now := 1001,
                 awaits := awaits world_waiting + Suc 0,
                 trace := trace world_waiting @ [GetCached, IsRefreshing] @ [Sleep 1, GetCached]\<rparr> =
              \<lparr>mgr = \<lparr>cache = Some entry_a, refreshing = False\<rparr>, now = 1001, awaits = 1,
               trace = [GetCached, IsRefreshing, Sleep 1, GetCached]\<rparr>"
    by (simp add: world_waiting_def)
  have upd2: "world_waiting\<lparr>mgr := \<lparr>cache = None, refreshing = False\<rparr>, now := 1001,
                 awaits := awaits world_waiting + Suc 0,
                 trace := trace world_waiting @ [GetCached, IsRefreshing]
                            @ [Sleep 1, GetCached, IsRefreshing]\<rparr> =
              \<lparr>mgr = \<lparr>cache = None, refreshing = False\<rparr>, now = 1001, awaits = 1,
               trace = [GetCached, IsRefreshing, Sleep 1, GetCached, IsRefreshing]\<rparr>"
    by (simp add: world_waiting_def)
  from waiter_stops_when_refresh_ends [OF r miss b p k none w1 pre, of entry_a rmt_500] hit
  have 1: "get_clearance cfg_on env_published rmt_500 None None False world_waiting =
     (Inr (Some ''abcd1234''),
      \<lparr>mgr = \<lparr>cache = Some entry_a, refreshing = False\<rparr>, now = 1001, awaits = 1,
       trace = [GetCached, IsRefreshing, Sleep 1, GetCached]\<rparr>)"
    by (simp only: tok upd1)
  from waiter_stops_when_refresh_ends [OF r miss b p k none w2 pre, of entry_a rmt_500] gone
  have 2: "get_clearance cfg_on env_abandoned rmt_500 None None False world_waiting =
     (Inr None,
      \<lparr>mgr = \<lparr>cache = None, refreshing = False\<rparr>, now = 1001, awaits = 1,
       trace = [GetCached, IsRefreshing, Sleep 1, GetCached, IsRefreshing]\<rparr>)"
    by (simp only: upd2) blast
  from 1 2 show ?thesis by (rule conjI)
qed

text \<open>
  C6 as stated has a last \<^verbatim>\<open>get_cached\<close> after the waiter has seen the flag false. Here
  the refresh in flight ends without an entry while the waiter sleeps. The waiter wakes,
  misses, reads the flag and returns: its trace ends with \<^verbatim>\<open>is_refreshing\<close>, and the one
  \<^verbatim>\<open>get_cached\<close> of the wake-up comes before the flag is read, not after.
\<close>

theorem waiter_break_skips_final_check:
  "get_cache cfg_on env_abandoned rmt_500 None None False world_waiting =
     (Inr None,
      \<lparr>mgr = \<lparr>cache = None, refreshing = False\<rparr>, now = 1001, awaits = 1,
       trace = [GetCached, IsRefreshing, Sleep 1, GetCached, IsRefreshing]\<rparr>)"
proof -
  have n: "(30::nat) = Suc 29" by simp
  have loop: "get_cache_wait env_abandoned ''chrome136'' None 30
                \<lparr>mgr = \<lparr>cache = None, refreshing = True\<rparr>, now = 1000, awaits = 0,
                 trace = [GetCached, IsRefreshing]\<rparr> =
              (None,
               \<lparr>mgr = \<lparr>cache = None, refreshing = False\<rparr>, now = 1001, awaits = 1,
                trace = [GetCached, IsRefreshing, Sleep 1, GetCached, IsRefreshing]\<rparr>)"
    by (subst n, subst get_cache_wait.simps(2))
      (simp add: get_cached_def is_refreshing_def record_event_def asyncio_sleep_def
        suspend_def cached_entry_def env_abandoned_def)
  show ?thesis
    by (simp add: get_cache_def get_cached_def is_refreshing_def record_event_def
        cached_entry_def Let_def loop world_waiting_def cfg_on_def
        get_browser_def get_proxy_def)
qed


section \<open>What the admin endpoints show of the token\<close>

text \<open>An entry that \<^verbatim>\<open>get_cache\<close> returns is the one the cache holds when it returns.\<close>

lemma get_cache_wait_returns_cached:
  "fst (get_cache_wait env b p n w) = Some c \<Longrightarrow>
     cache (mgr (snd (get_cache_wait env b p n w))) = Some c"
proof (induction n arbitrary: w)
  case 0
  then show ?case by simp
next
  case (Suc n)
  then show ?case
    by (auto simp: Let_def split_def get_cached_def is_refreshing_def record_event_def
        split: option.splits if_splits dest: cached_entry_Some)
qed

lemma get_cache_returns_cached:
  assumes "fst (get_cache cfg env rmt browser0 proxy0 force_refresh w) = Inr (Some c)"
  shows "cache (mgr (snd (get_cache cfg env rmt browser0 proxy0 force_refresh w))) = Some c"
proof -
  let ?b = "browser_or browser0 cfg" and ?p = "proxy_or proxy0 cfg"
  show ?thesis
  proof (cases "force_refresh \<or> cached_entry (mgr w) ?b ?p (now w) = None")
    case False
    then obtain c' where h: "\<not> force_refresh" "cached_entry (mgr w) ?b ?p (now w) = Some c'"
      by auto
    from get_cache_hit [OF h(2)] h(1) assms h(2) show ?thesis
      by (auto dest: cached_entry_Some)
  next
    case miss: True
    show ?thesis
    proof (cases "refreshing (mgr w)")
      case True
      from assms show ?thesis
        unfolding get_cache_enters_wait [OF True miss]
        by (simp add: get_cache_wait_returns_cached del: get_cache_wait.simps)
    next
      case False
      from assms show ?thesis
        unfolding get_cache_fetches [OF False miss]
        by (auto simp: set_refreshing_def set_cache_def record_event_def
            split: prod.splits sum.splits option.splits)
    qed
  qed
qed

lemma get_cf_status_preview:
  assumes "get_cf_status cfg env rmt w = (Inr r, w')"
  shows "cached_clearance r = None
      \<or> (\<exists>c. cache (mgr w') = Some c
             \<and> cached_clearance r = Some (take 30 (cf_clearance c) @ ''...''))"
proof (cases "is_enabled cfg")
  case False
  with assms show ?thesis by (auto simp: get_cf_status_def Let_def)
next
  case True
  obtain res w1 where g: "get_cache cfg env rmt None None False w = (res, w1)"
    by (cases "get_cache cfg env rmt None None False w")
  show ?thesis
  proof (cases res)
    case (Inl e)
    with assms g True show ?thesis by (simp add: get_cf_status_def Let_def)
  next
    case (Inr oc)
    show ?thesis
    proof (cases oc)
      case None
      with assms g True Inr show ?thesis by (simp add: get_cf_status_def Let_def) auto
    next
      case (Some c)
      with g Inr have "cache (mgr w1) = Some c"
        using get_cache_returns_cached [of cfg env rmt None None False w c] by simp
      moreover from assms g True Inr Some have "w' = w1"
        and "cached_clearance r =
               (if cf_clearance c \<noteq> [] then Some (take 30 (cf_clearance c) @ ''...'')
                else None)"
        by (auto simp: get_cf_status_def Let_def)
      ultimately show ?thesis
        by (cases "cf_clearance c = []") simp_all
    qed
  qed
qed

lemma refresh_cf_preview:
  assumes "refresh_cf cfg env rmt force w = (Inr rr, w')"
  shows "r_cf_clearance rr = None
      \<or> (\<exists>c. cache (mgr w') = Some c
             \<and> r_cf_clearance rr = Some (take 30 (cf_clearance c) @ ''...''))"
proof -
  let ?w1 = "if force then invalidate_cache w else w"
  from assms have en: "is_enabled cfg"
    by (auto simp: refresh_cf_def split: if_splits)
  obtain res w2 where g: "get_cache cfg env rmt None None force ?w1 = (res, w2)"
    by (cases "get_cache cfg env rmt None None force ?w1")
  have gc: "get_clearance cfg env rmt None None force ?w1 =
              (map_sum id (map_option cf_clearance) res, w2)"
    using g by (simp add: get_clearance_as_get_cache)
  show ?thesis
  proof (cases res)
    case (Inl e)
    with assms gc en show ?thesis by (simp add: refresh_cf_def Let_def)
  next
    case (Inr oc)
    show ?thesis
    proof (cases oc)
      case None
      with assms gc en Inr show ?thesis
        by (simp add: refresh_cf_def Let_def) (auto simp: refresh_failed_def)
    next
      case (Some c)
      with g Inr have c: "cache (mgr w2) = Some c"
        using get_cache_returns_cached [of cfg env rmt None None force ?w1 c] by simp
      show ?thesis
      proof (cases "cf_clearance c = []")
        case True
        with assms gc en Inr Some show ?thesis
          by (simp add: refresh_cf_def Let_def) (auto simp: refresh_failed_def)
      next
        case False
        with assms gc en Inr Some have "w' = w2"
          and "rr = refresh_succeeded (cf_clearance c)"
          by (auto simp: refresh_cf_def Let_def)
        with c show ?thesis by (simp add: refresh_succeeded_def)
      qed
    qed
  qed
qed

text \<open>The two endpoints on a world whose cached entry is valid for the default context.\<close>

lemma status_of_seeded_world:
  assumes "is_valid_for c ''chrome136'' None t"
  shows "get_cf_status cfg_on env rmt
           \<lparr>mgr = \<lparr>cache = Some c, refreshing = False\<rparr>, now = t, awaits = 0, trace = []\<rparr> =
         (Inr \<lparr>enabled = True, service_url = Some ''http://cf:8080/'', has_cache = True,
               cached_clearance =
                 (if cf_clearance c \<noteq> [] then Some (take 30 (cf_clearance c) @ ''...'')
                  else None)\<rparr>,
          \<lparr>mgr = \<lparr>cache = Some c, refreshing = False\<rparr>, now = t, awaits = 0,
           trace = [GetCached]\<rparr>)"
  using assms
  by (simp add: get_cf_status_def get_cache_def get_cached_def cached_entry_def
      record_event_def Let_def cfg_on_def is_enabled_def truthy_def get_service_url_def
      get_browser_def get_proxy_def)

lemma refresh_of_seeded_world:
  assumes "is_valid_for c ''chrome136'' None t" and "cf_clearance c \<noteq> []"
  shows "refresh_cf cfg_on env rmt False
           \<lparr>mgr = \<lparr>cache = Some c, refreshing = False\<rparr>, now = t, awaits = 0, trace = []\<rparr> =
         (Inr (refresh_succeeded (cf_clearance c)),
          \<lparr>mgr = \<lparr>cache = Some c, refreshing = False\<rparr>, now = t, awaits = 0,
           trace = [GetCached]\<rparr>)"
  using assms
  by (simp add: refresh_cf_def get_clearance_def get_cached_def cached_entry_def
      record_event_def Let_def cfg_on_def is_enabled_def truthy_def get_service_url_def
      get_browser_def get_proxy_def)


text \<open>
  C8, as the code has it. In every response of the status endpoint the
  \<^verbatim>\<open>cached_clearance\<close> field is absent or is the first 30 characters of the cached token
  followed by three dots, and so is the \<^verbatim>\<open>cf_clearance\<close> field of every response of the
  refresh endpoint. Nothing beyond the thirtieth character is shown; a token of thirty
  characters or fewer is shown whole.
\<close>

theorem preview_is_first_30_chars:
  "(get_cf_status cfg env rmt w = (Inr r, w') \<longrightarrow>
      cached_clearance r = None
      \<or> (\<exists>c. cache (mgr w') = Some c
             \<and> cached_clearance r = Some (take 30 (cf_clearance c) @ ''...'')))
   \<and> (refresh_cf cfg env rmt force w = (Inr rr, w'') \<longrightarrow>
      r_cf_clearance rr = None
      \<or> (\<exists>c. cache (mgr w'') = Some c
             \<and> r_cf_clearance rr = Some (take 30 (cf_clearance c) @ ''...'')))"
  using get_cf_status_preview refresh_cf_preview by blast

theorem preview_is_first_30_chars_witness:
  "get_cf_status cfg_on env_idle rmt_500 world_long =
     (Inr \<lparr>enabled = True, service_url = Some ''http://cf:8080/'', has_cache = True,
           cached_clearance = Some ''0123456789abcdefghijklmnopqrst...''\<rparr>,
      world_long\<lparr>trace := [GetCached]\<rparr>)
   \<and> refresh_cf cfg_on env_idle rmt_500 False world_long =
     (Inr \<lparr>r_success = True, r_cf_clearance = Some ''0123456789abcdefghijklmnopqrst...'',
           r_message = ''CF Clearance refreshed successfully''\<rparr>,
      world_long\<lparr>trace := [GetCached]\<rparr>)
   \<and> cache (mgr (world_long\<lparr>trace := [GetCached]\<rparr>)) = Some entry_long
   \<and> take 30 (cf_clearance entry_long) @ ''...'' = ''0123456789abcdefghijklmnopqrst...''"
proof -
  have v: "is_valid_for entry_long ''chrome136'' None 1000"
    and ne: "cf_clearance entry_long \<noteq> []"
    by (simp_all add: is_valid_for_def is_expired_def entry_long_def entry_a_def)
  have 1: "get_cf_status cfg_on env_idle rmt_500 world_long =
     (Inr \<lparr>enabled = True, service_url = Some ''http://cf:8080/'', has_cache = True,
           cached_clearance = Some ''0123456789abcdefghijklmnopqrst...''\<rparr>,
      world_long\<lparr>trace := [GetCached]\<rparr>)"
    unfolding world_long_def status_of_seeded_world [OF v]
    by (simp add: entry_long_def entry_a_def)
  have 2: "refresh_cf cfg_on env_idle rmt_500 False world_long =
     (Inr \<lparr>r_success = True, r_cf_clearance = Some ''0123456789abcdefghijklmnopqrst...'',
           r_message = ''CF Clearance refreshed successfully''\<rparr>,
      world_long\<lparr>trace := [GetCached]\<rparr>)"
    unfolding world_long_def refresh_of_seeded_world [OF v ne]
    by (simp add: entry_long_def entry_a_def refresh_succeeded_def)
  from preview_is_first_30_chars
    [of cfg_on env_idle rmt_500 world_long _ "world_long\<lparr>trace := [GetCached]\<rparr>" False _
        "world_long\<lparr>trace := [GetCached]\<rparr>"] 1 2
  show ?thesis
    by (simp add: world_long_def entry_long_def entry_a_def)
qed

text \<open>
  C8 as stated never shows the whole token. The status of a world whose cached token is
  \<^verbatim>\<open>abcd1234\<close>: the preview is the whole token followed by three dots.
\<close>

theorem status_shows_short_token_in_full:
  "get_cf_status cfg_on env_idle rmt_500 world_seeded =
     (Inr \<lparr>enabled = True, service_url = Some ''http://cf:8080/'', has_cache = True,
           cached_clearance = Some ''abcd1234...''\<rparr>,
      world_seeded\<lparr>trace := [GetCached]\<rparr>)
   \<and> cache (mgr world_seeded) = Some entry_a
   \<and> cf_clearance entry_a = ''abcd1234''
   \<and> prefix (cf_clearance entry_a) ''abcd1234...''"
proof -
  have v: "is_valid_for entry_a ''chrome136'' None 1000"
    by (simp add: is_valid_for_def is_expired_def entry_a_def)
  show ?thesis
    unfolding world_seeded_def status_of_seeded_world [OF v]
    by (simp add: entry_a_def)
qed

end
